theory Spec2Isabelle
  imports Complex_Main
begin

section \<open>Appointments: data model\<close>

text \<open>
  The appointment resource of the hospital backend: the ORM model
  (\<^verbatim>\<open>app/models/appointment.py\<close>), the request schemas
  (\<^verbatim>\<open>app/schemas/appointment.py\<close>) and the five endpoints
  (\<^verbatim>\<open>app/api/endpoints/appointments.py\<close>).

  A \<^verbatim>\<open>datetime\<close> is an instant, counted as an integer; the endpoints only store
  and copy instants. A \<^verbatim>\<open>Float\<close> column is a real number; the endpoints never
  compute with one. A nullable column is an \<open>option\<close>.
\<close>

type_synonym datetime = int

datatype AppointmentStatus =
  SCHEDULED | CONFIRMED | IN_PROGRESS | COMPLETED | CANCELLED | NO_SHOW

datatype AppointmentType =
  CONSULTATION | FOLLOW_UP | EMERGENCY | TELECONSULTATION | PROCEDURE

text \<open>
  The mapped class \<^verbatim>\<open>Appointment\<close>. The primary key \<^verbatim>\<open>id\<close> is
  \<open>appointment_id\<close> here. \<^verbatim>\<open>scheduled_date\<close> is declared
  \<^verbatim>\<open>nullable=False\<close>, but the attribute of a loaded object can be set to
  \<^verbatim>\<open>None\<close> before the commit refuses it, so the field is an \<open>option\<close> too.
\<close>

record Appointment =
  appointment_id :: int
  patient_id :: int
  doctor_id :: int
  appointment_type :: "AppointmentType option"
  status :: "AppointmentStatus option"
  scheduled_date :: "datetime option"
  duration_minutes :: "int option"
  actual_start_time :: "datetime option"
  actual_end_time :: "datetime option"
  is_virtual :: "bool option"
  meeting_link :: "string option"
  location :: "string option"
  reason_for_visit :: "string option"
  symptoms :: "string option"
  notes_text :: "string option"
  consultation_fee :: "real option"
  payment_status :: "string option"
  follow_up_required :: "bool option"
  follow_up_date :: "datetime option"
  ai_risk_score :: "real option"
  ai_recommendations :: "string option"
  created_at :: "datetime option"
  updated_at :: "datetime option"

text \<open>
  The mapped class \<^verbatim>\<open>Doctor\<close>, reduced to its two keys: the endpoints read
  nothing else of it.
\<close>

record Doctor =
  doctor_pk :: int
  doctor_user_id :: int

text \<open>
  What the attribute \<^verbatim>\<open>current_user.doctor_profile\<close> can hold. The class
  \<^verbatim>\<open>User\<close> declares no such attribute; it comes from
  \<^verbatim>\<open>user = relationship("User", backref="doctor_profile")\<close> in
  \<^verbatim>\<open>app/models/doctor.py\<close>. A backref on the many-to-one side
  \<^verbatim>\<open>Doctor.user\<close> is a one-to-many collection, so a loaded \<^verbatim>\<open>User\<close>
  carries the list of its \<^verbatim>\<open>Doctor\<close> rows (\<open>PyList\<close>, empty when there is
  none). The endpoints are written for a scalar (\<open>PyDoctor\<close>, or \<open>PyNone\<close> when
  a scalar relationship has no row) and probe the attribute with \<^verbatim>\<open>hasattr\<close>,
  so the model keeps every shape: the field \<open>doctor_profile\<close> of an actor is
  \<open>None\<close> when the object has no such attribute at all.
\<close>

datatype pyval = PyNone | PyDoctor Doctor | PyList "Doctor list"

record User =
  user_id :: int
  role :: "string option"
  is_superuser :: bool
  doctor_profile :: "pyval option"

datatype error =
  NotFound | Forbidden | ValidationError | AttributeError | IntegrityError | DataError
  | InvalidRequestError

text \<open>\<^verbatim>\<open>hasattr(current_user, 'doctor_profile')\<close>\<close>

definition hasattr_doctor_profile :: "User \<Rightarrow> bool" where
  "hasattr_doctor_profile u = (doctor_profile u \<noteq> None)"

text \<open>
  \<^verbatim>\<open>v.id\<close>: only a \<^verbatim>\<open>Doctor\<close> object has the attribute; on
  \<^verbatim>\<open>None\<close> and on a list Python raises \<^verbatim>\<open>AttributeError\<close>.
\<close>

fun getattr_id :: "pyval \<Rightarrow> error + int" where
  "getattr_id (PyDoctor d) = Inr (doctor_pk d)"
| "getattr_id PyNone = Inl AttributeError"
| "getattr_id (PyList ds) = Inl AttributeError"

text \<open>
  \<^verbatim>\<open>current_user.doctor_profile.id\<close>. The endpoints read it only behind a
  successful \<^verbatim>\<open>hasattr\<close>; on an object without the attribute Python raises
  \<^verbatim>\<open>AttributeError\<close> as well.
\<close>

definition doctor_profile_id :: "User \<Rightarrow> error + int" where
  "doctor_profile_id u =
     (case doctor_profile u of None \<Rightarrow> Inl AttributeError | Some v \<Rightarrow> getattr_id v)"

section \<open>The store\<close>

text \<open>
  The table of appointments, in the order in which the database returns its rows, and
  the sequence that assigns primary keys.
\<close>

record db =
  rows :: "Appointment list"
  next_id :: int

text \<open>\<^verbatim>\<open>db.query(Appointment).filter(Appointment.id == appointment_id).first()\<close>\<close>

definition query_first :: "db \<Rightarrow> int \<Rightarrow> Appointment option" where
  "query_first d i = find (\<lambda>r. appointment_id r = i) (rows d)"

text \<open>
  \<^verbatim>\<open>.offset(skip).limit(limit).all()\<close> on the rows a filter keeps. The engine
  the settings configure is PostgreSQL, which refuses a negative \<^verbatim>\<open>OFFSET\<close> or
  \<^verbatim>\<open>LIMIT\<close>.
\<close>

definition offset_limit :: "int \<Rightarrow> int \<Rightarrow> Appointment list \<Rightarrow> error + Appointment list" where
  "offset_limit skip limit xs =
     (if skip < 0 \<or> limit < 0 then Inl DataError
      else Inr (take (nat limit) (drop (nat skip) xs)))"

section \<open>Request schemas\<close>

text \<open>
  A request body is a JSON object: a dictionary from keys to values. \<open>JDate\<close> is a
  string in the ISO form that a \<^verbatim>\<open>datetime\<close> field accepts, read as the instant
  it denotes. A schema reads the keys of its declared fields and ignores every other key
  (the default of \<^verbatim>\<open>BaseModel\<close>); a value of the wrong type is a validation
  error.
\<close>

datatype jval = JNull | JInt int | JBool bool | JStr string | JDate datetime

type_synonym body = "string \<rightharpoonup> jval"

fun status_of_string :: "string \<Rightarrow> AppointmentStatus option" where
  "status_of_string s =
     (if s = ''scheduled'' then Some SCHEDULED
      else if s = ''confirmed'' then Some CONFIRMED
      else if s = ''in_progress'' then Some IN_PROGRESS
      else if s = ''completed'' then Some COMPLETED
      else if s = ''cancelled'' then Some CANCELLED
      else if s = ''no_show'' then Some NO_SHOW
      else None)"

fun type_of_string :: "string \<Rightarrow> AppointmentType option" where
  "type_of_string s =
     (if s = ''consultation'' then Some CONSULTATION
      else if s = ''follow_up'' then Some FOLLOW_UP
      else if s = ''emergency'' then Some EMERGENCY
      else if s = ''teleconsultation'' then Some TELECONSULTATION
      else if s = ''procedure'' then Some PROCEDURE
      else None)"

text \<open>Required fields and fields with a default that is not \<^verbatim>\<open>None\<close>.\<close>

fun as_int :: "jval \<Rightarrow> error + int" where
  "as_int (JInt n) = Inr n"
| "as_int _ = Inl ValidationError"

fun as_bool :: "jval \<Rightarrow> error + bool" where
  "as_bool (JBool b) = Inr b"
| "as_bool _ = Inl ValidationError"

fun as_datetime :: "jval \<Rightarrow> error + datetime" where
  "as_datetime (JDate t) = Inr t"
| "as_datetime _ = Inl ValidationError"

fun as_type :: "jval \<Rightarrow> error + AppointmentType" where
  "as_type (JStr s) = (case type_of_string s of None \<Rightarrow> Inl ValidationError | Some t \<Rightarrow> Inr t)"
| "as_type _ = Inl ValidationError"

fun as_status :: "jval \<Rightarrow> error + AppointmentStatus" where
  "as_status (JStr s) =
     (case status_of_string s of None \<Rightarrow> Inl ValidationError | Some t \<Rightarrow> Inr t)"
| "as_status _ = Inl ValidationError"

fun as_str :: "jval \<Rightarrow> error + string" where
  "as_str (JStr s) = Inr s"
| "as_str _ = Inl ValidationError"

text \<open>\<^verbatim>\<open>Optional[T]\<close>: \<^verbatim>\<open>null\<close> is accepted and read as \<^verbatim>\<open>None\<close>.\<close>

definition optional :: "(jval \<Rightarrow> error + 'a) \<Rightarrow> jval \<Rightarrow> error + 'a option" where
  "optional f v =
     (if v = JNull then Inr None
      else case f v of Inl e \<Rightarrow> Inl e | Inr x \<Rightarrow> Inr (Some x))"

text \<open>A required field, a field with a default, and a field that may stay unset.\<close>

definition required :: "body \<Rightarrow> string \<Rightarrow> (jval \<Rightarrow> error + 'a) \<Rightarrow> error + 'a" where
  "required b k f = (case b k of None \<Rightarrow> Inl ValidationError | Some v \<Rightarrow> f v)"

definition defaulted :: "body \<Rightarrow> string \<Rightarrow> (jval \<Rightarrow> error + 'a) \<Rightarrow> 'a \<Rightarrow> error + 'a" where
  "defaulted b k f dflt = (case b k of None \<Rightarrow> Inr dflt | Some v \<Rightarrow> f v)"

definition settable :: "body \<Rightarrow> string \<Rightarrow> (jval \<Rightarrow> error + 'a) \<Rightarrow> error + 'a option option" where
  "settable b k f =
     (case b k of
        None \<Rightarrow> Inr None
      | Some v \<Rightarrow> (case optional f v of Inl e \<Rightarrow> Inl e | Inr x \<Rightarrow> Inr (Some x)))"

text \<open>
  \<^verbatim>\<open>AppointmentBase\<close> and \<^verbatim>\<open>AppointmentCreate\<close> (which adds nothing): the
  schema has no field \<^verbatim>\<open>patient_id\<close>.
\<close>

record AppointmentCreate =
  in_doctor_id :: int
  in_appointment_type :: AppointmentType
  in_scheduled_date :: datetime
  in_duration_minutes :: int
  in_is_virtual :: bool
  in_reason_for_visit :: "string option"
  in_symptoms :: "string option"
  in_notes :: "string option"

definition validate_create :: "body \<Rightarrow> error + AppointmentCreate" where
  "validate_create b =
     (case required b ''doctor_id'' as_int of Inl e \<Rightarrow> Inl e | Inr did \<Rightarrow>
      case defaulted b ''appointment_type'' as_type CONSULTATION of Inl e \<Rightarrow> Inl e | Inr ty \<Rightarrow>
      case required b ''scheduled_date'' as_datetime of Inl e \<Rightarrow> Inl e | Inr sd \<Rightarrow>
      case defaulted b ''duration_minutes'' as_int 30 of Inl e \<Rightarrow> Inl e | Inr dur \<Rightarrow>
      case defaulted b ''is_virtual'' as_bool False of Inl e \<Rightarrow> Inl e | Inr virt \<Rightarrow>
      case defaulted b ''reason_for_visit'' (optional as_str) None of Inl e \<Rightarrow> Inl e | Inr rv \<Rightarrow>
      case defaulted b ''symptoms'' (optional as_str) None of Inl e \<Rightarrow> Inl e | Inr sy \<Rightarrow>
      case defaulted b ''notes'' (optional as_str) None of Inl e \<Rightarrow> Inl e | Inr no \<Rightarrow>
      Inr \<lparr>in_doctor_id = did, in_appointment_type = ty, in_scheduled_date = sd,
           in_duration_minutes = dur, in_is_virtual = virt, in_reason_for_visit = rv,
           in_symptoms = sy, in_notes = no\<rparr>)"

text \<open>
  \<^verbatim>\<open>AppointmentUpdate\<close>: every field is optional with default \<^verbatim>\<open>None\<close>.
  The endpoint dumps it with \<^verbatim>\<open>exclude_unset=True\<close>, so a field has three
  states: not set (\<open>None\<close>), set to \<^verbatim>\<open>null\<close> (\<open>Some None\<close>), set to a value.
\<close>

record AppointmentUpdate =
  set_status :: "AppointmentStatus option option"
  set_scheduled_date :: "datetime option option"
  set_duration_minutes :: "int option option"
  set_is_virtual :: "bool option option"
  set_reason_for_visit :: "string option option"
  set_symptoms :: "string option option"
  set_notes :: "string option option"
  set_meeting_link :: "string option option"
  set_location :: "string option option"

definition validate_update :: "body \<Rightarrow> error + AppointmentUpdate" where
  "validate_update b =
     (case settable b ''status'' as_status of Inl e \<Rightarrow> Inl e | Inr st \<Rightarrow>
      case settable b ''scheduled_date'' as_datetime of Inl e \<Rightarrow> Inl e | Inr sd \<Rightarrow>
      case settable b ''duration_minutes'' as_int of Inl e \<Rightarrow> Inl e | Inr dur \<Rightarrow>
      case settable b ''is_virtual'' as_bool of Inl e \<Rightarrow> Inl e | Inr virt \<Rightarrow>
      case settable b ''reason_for_visit'' as_str of Inl e \<Rightarrow> Inl e | Inr rv \<Rightarrow>
      case settable b ''symptoms'' as_str of Inl e \<Rightarrow> Inl e | Inr sy \<Rightarrow>
      case settable b ''notes'' as_str of Inl e \<Rightarrow> Inl e | Inr no \<Rightarrow>
      case settable b ''meeting_link'' as_str of Inl e \<Rightarrow> Inl e | Inr ml \<Rightarrow>
      case settable b ''location'' as_str of Inl e \<Rightarrow> Inl e | Inr lo \<Rightarrow>
      Inr \<lparr>set_status = st, set_scheduled_date = sd, set_duration_minutes = dur,
           set_is_virtual = virt, set_reason_for_visit = rv, set_symptoms = sy,
           set_notes = no, set_meeting_link = ml, set_location = lo\<rparr>)"

text \<open>
  \<^verbatim>\<open>appointment_in.model_dump(exclude_unset=True).items()\<close>: the fields that were
  set, in the order of their declaration, each with its value.
\<close>

datatype item =
  Status "AppointmentStatus option"
| ScheduledDate "datetime option"
| DurationMinutes "int option"
| IsVirtual "bool option"
| ReasonForVisit "string option"
| Symptoms "string option"
| Notes "string option"
| MeetingLink "string option"
| Location "string option"

definition dump_field :: "('a option \<Rightarrow> item) \<Rightarrow> 'a option option \<Rightarrow> item list" where
  "dump_field c x = (case x of None \<Rightarrow> [] | Some v \<Rightarrow> [c v])"

definition model_dump_exclude_unset :: "AppointmentUpdate \<Rightarrow> item list" where
  "model_dump_exclude_unset p =
     dump_field Status (set_status p) @
     dump_field ScheduledDate (set_scheduled_date p) @
     dump_field DurationMinutes (set_duration_minutes p) @
     dump_field IsVirtual (set_is_virtual p) @
     dump_field ReasonForVisit (set_reason_for_visit p) @
     dump_field Symptoms (set_symptoms p) @
     dump_field Notes (set_notes p) @
     dump_field MeetingLink (set_meeting_link p) @
     dump_field Location (set_location p)"

text \<open>\<^verbatim>\<open>setattr(appointment, field, value)\<close>\<close>

fun setattr :: "item \<Rightarrow> Appointment \<Rightarrow> Appointment" where
  "setattr (Status v) a = a\<lparr>status := v\<rparr>"
| "setattr (ScheduledDate v) a = a\<lparr>scheduled_date := v\<rparr>"
| "setattr (DurationMinutes v) a = a\<lparr>duration_minutes := v\<rparr>"
| "setattr (IsVirtual v) a = a\<lparr>is_virtual := v\<rparr>"
| "setattr (ReasonForVisit v) a = a\<lparr>reason_for_visit := v\<rparr>"
| "setattr (Symptoms v) a = a\<lparr>symptoms := v\<rparr>"
| "setattr (Notes v) a = a\<lparr>notes_text := v\<rparr>"
| "setattr (MeetingLink v) a = a\<lparr>meeting_link := v\<rparr>"
| "setattr (Location v) a = a\<lparr>location := v\<rparr>"

text \<open>The loop \<^verbatim>\<open>for field, value in ...items(): setattr(appointment, field, value)\<close>.\<close>

fun apply_items :: "item list \<Rightarrow> Appointment \<Rightarrow> Appointment" where
  "apply_items [] a = a"
| "apply_items (x # xs) a = apply_items xs (setattr x a)"

section \<open>The endpoints\<close>

text \<open>
  Every endpoint takes the store and the resolved actor and returns its result together
  with the store it leaves behind. An exception of the source is a result \<open>Inl e\<close>:
  the two \<^verbatim>\<open>HTTPException\<close>s are \<open>NotFound\<close> (404) and \<open>Forbidden\<close>
  (403); an uncaught Python or database exception is the error of its name.
\<close>

text \<open>
  \<^verbatim>\<open>read_appointments\<close>. The filter of the doctor branch is the conditional
  expression
  \<^verbatim>\<open>(Appointment.doctor_id == current_user.doctor_profile.id) if hasattr(...) else False\<close>,
  evaluated in Python before the query runs.
\<close>

definition read_appointments :: "db \<Rightarrow> int \<Rightarrow> int \<Rightarrow> User \<Rightarrow> (error + Appointment list) \<times> db" where
  "read_appointments d skip limit current_user =
     (if role current_user = Some ''doctor'' then
        (if hasattr_doctor_profile current_user then
           (case doctor_profile_id current_user of
              Inl e \<Rightarrow> (Inl e, d)
            | Inr pid \<Rightarrow> (offset_limit skip limit (filter (\<lambda>a. doctor_id a = pid) (rows d)), d))
         else (offset_limit skip limit (filter (\<lambda>a. False) (rows d)), d))
      else
        (offset_limit skip limit (filter (\<lambda>a. patient_id a = user_id current_user) (rows d)), d))"

text \<open>
  \<^verbatim>\<open>db.refresh(appointment)\<close>: the row is read again by its primary key.
\<close>

definition refresh :: "db \<Rightarrow> int \<Rightarrow> (error + Appointment) \<times> db" where
  "refresh d i =
     (case query_first d i of None \<Rightarrow> (Inl InvalidRequestError, d) | Some r \<Rightarrow> (Inr r, d))"

text \<open>
  \<^verbatim>\<open>create_appointment\<close>:
  \<^verbatim>\<open>Appointment(**appointment_in.model_dump(), patient_id=current_user.id)\<close>, then
  \<^verbatim>\<open>add\<close>, \<^verbatim>\<open>commit\<close>, \<^verbatim>\<open>refresh\<close>. The columns that the constructor
  does not receive take their declared defaults on insert; the primary key comes from
  the sequence, and the insert fails when that key is taken.
\<close>

definition new_appointment :: "int \<Rightarrow> AppointmentCreate \<Rightarrow> User \<Rightarrow> datetime \<Rightarrow> Appointment" where
  "new_appointment i appointment_in current_user now =
     \<lparr>appointment_id = i,
      patient_id = user_id current_user,
      doctor_id = in_doctor_id appointment_in,
      appointment_type = Some (in_appointment_type appointment_in),
      status = Some SCHEDULED,
      scheduled_date = Some (in_scheduled_date appointment_in),
      duration_minutes = Some (in_duration_minutes appointment_in),
      actual_start_time = None,
      actual_end_time = None,
      is_virtual = Some (in_is_virtual appointment_in),
      meeting_link = None,
      location = None,
      reason_for_visit = in_reason_for_visit appointment_in,
      symptoms = in_symptoms appointment_in,
      notes_text = in_notes appointment_in,
      consultation_fee = Some 0,
      payment_status = Some ''pending'',
      follow_up_required = Some False,
      follow_up_date = None,
      ai_risk_score = None,
      ai_recommendations = None,
      created_at = Some now,
      updated_at = Some now\<rparr>"

definition create_appointment ::
    "db \<Rightarrow> AppointmentCreate \<Rightarrow> User \<Rightarrow> datetime \<Rightarrow> (error + Appointment) \<times> db" where
  "create_appointment d appointment_in current_user now =
     (let appointment = new_appointment (next_id d) appointment_in current_user now in
      if query_first d (next_id d) \<noteq> None then (Inl IntegrityError, d)
      else refresh (d\<lparr>rows := rows d @ [appointment], next_id := next_id d + 1\<rparr>) (next_id d))"

text \<open>The request: the body is validated before the endpoint runs.\<close>

definition create_appointment_request ::
    "db \<Rightarrow> body \<Rightarrow> User \<Rightarrow> datetime \<Rightarrow> (error + Appointment) \<times> db" where
  "create_appointment_request d b current_user now =
     (case validate_create b of
        Inl e \<Rightarrow> (Inl e, d)
      | Inr appointment_in \<Rightarrow> create_appointment d appointment_in current_user now)"

text \<open>
  The permission test of \<^verbatim>\<open>read_appointment\<close>,
  \<^verbatim>\<open>A and (B or C) and D\<close> with Python's short-circuit order: \<^verbatim>\<open>C\<close> reads
  \<^verbatim>\<open>current_user.doctor_profile.id\<close> and can raise; it is reached only when
  \<^verbatim>\<open>A\<close> holds and \<^verbatim>\<open>B\<close> does not. The result \<open>Inr True\<close> means that the
  endpoint raises 403.
\<close>

definition read_denied :: "User \<Rightarrow> Appointment \<Rightarrow> error + bool" where
  "read_denied current_user appointment =
     (if patient_id appointment \<noteq> user_id current_user then
        (case (if \<not> hasattr_doctor_profile current_user then Inr True
               else case doctor_profile_id current_user of
                      Inl e \<Rightarrow> Inl e
                    | Inr pid \<Rightarrow> Inr (pid \<noteq> doctor_id appointment)) of
           Inl e \<Rightarrow> Inl e
         | Inr c \<Rightarrow> Inr (c \<and> \<not> is_superuser current_user))
      else Inr False)"

definition read_appointment :: "db \<Rightarrow> int \<Rightarrow> User \<Rightarrow> (error + Appointment) \<times> db" where
  "read_appointment d appointment_id' current_user =
     (case query_first d appointment_id' of
        None \<Rightarrow> (Inl NotFound, d)
      | Some appointment \<Rightarrow>
          (case read_denied current_user appointment of
             Inl e \<Rightarrow> (Inl e, d)
           | Inr True \<Rightarrow> (Inl Forbidden, d)
           | Inr False \<Rightarrow> (Inr appointment, d)))"

text \<open>
  The permission test of \<^verbatim>\<open>update_appointment\<close>, transcribed from its own copy of
  the condition.
\<close>

definition update_denied :: "User \<Rightarrow> Appointment \<Rightarrow> error + bool" where
  "update_denied current_user appointment =
     (if patient_id appointment \<noteq> user_id current_user then
        (case (if \<not> hasattr_doctor_profile current_user then Inr True
               else case doctor_profile_id current_user of
                      Inl e \<Rightarrow> Inl e
                    | Inr pid \<Rightarrow> Inr (pid \<noteq> doctor_id appointment)) of
           Inl e \<Rightarrow> Inl e
         | Inr c \<Rightarrow> Inr (c \<and> \<not> is_superuser current_user))
      else Inr False)"

text \<open>
  The commit of a modified object. When no attribute has a net change, no
  \<^verbatim>\<open>UPDATE\<close> is sent. Otherwise the row of that primary key is written, with
  \<^verbatim>\<open>updated_at\<close> taken from \<^verbatim>\<open>onupdate=datetime.utcnow\<close>; the database
  refuses \<^verbatim>\<open>NULL\<close> in \<^verbatim>\<open>scheduled_date\<close>.
\<close>

definition commit_update :: "db \<Rightarrow> Appointment \<Rightarrow> Appointment \<Rightarrow> datetime \<Rightarrow> error + db" where
  "commit_update d loaded modified now =
     (if modified = loaded then Inr d
      else if scheduled_date modified = None then Inl IntegrityError
      else Inr (d\<lparr>rows := map (\<lambda>r. if appointment_id r = appointment_id loaded
                                     then modified\<lparr>updated_at := Some now\<rparr> else r) (rows d)\<rparr>))"

definition update_appointment ::
    "db \<Rightarrow> int \<Rightarrow> AppointmentUpdate \<Rightarrow> User \<Rightarrow> datetime \<Rightarrow> (error + Appointment) \<times> db" where
  "update_appointment d appointment_id' appointment_in current_user now =
     (case query_first d appointment_id' of
        None \<Rightarrow> (Inl NotFound, d)
      | Some appointment \<Rightarrow>
          (case update_denied current_user appointment of
             Inl e \<Rightarrow> (Inl e, d)
           | Inr True \<Rightarrow> (Inl Forbidden, d)
           | Inr False \<Rightarrow>
               (case commit_update d appointment
                       (apply_items (model_dump_exclude_unset appointment_in) appointment) now of
                  Inl e \<Rightarrow> (Inl e, d)
                | Inr d' \<Rightarrow> refresh d' appointment_id')))"

definition update_appointment_request ::
    "db \<Rightarrow> int \<Rightarrow> body \<Rightarrow> User \<Rightarrow> datetime \<Rightarrow> (error + Appointment) \<times> db" where
  "update_appointment_request d appointment_id' b current_user now =
     (case validate_update b of
        Inl e \<Rightarrow> (Inl e, d)
      | Inr appointment_in \<Rightarrow> update_appointment d appointment_id' appointment_in current_user now)"

text \<open>
  \<^verbatim>\<open>delete_appointment\<close>: the test is
  \<^verbatim>\<open>appointment.patient_id != current_user.id and not current_user.is_superuser\<close>;
  \<^verbatim>\<open>db.delete\<close> removes the row of that primary key.
\<close>

definition delete_appointment :: "db \<Rightarrow> int \<Rightarrow> User \<Rightarrow> (error + string) \<times> db" where
  "delete_appointment d appointment_id' current_user =
     (case query_first d appointment_id' of
        None \<Rightarrow> (Inl NotFound, d)
      | Some appointment \<Rightarrow>
          (if patient_id appointment \<noteq> user_id current_user \<and> \<not> is_superuser current_user
           then (Inl Forbidden, d)
           else (Inr ''Appointment deleted successfully'',
                 d\<lparr>rows := filter (\<lambda>r. appointment_id r \<noteq> appointment_id appointment) (rows d)\<rparr>)))"

section \<open>The scoping rule and the empty payload\<close>

text \<open>
  The doctor profile of an actor, when the actor object carries it as the
  \<^verbatim>\<open>Doctor\<close> object that the endpoints expect.
\<close>

definition profile_of :: "User \<Rightarrow> Doctor option" where
  "profile_of u = (case doctor_profile u of Some (PyDoctor p) \<Rightarrow> Some p | _ \<Rightarrow> None)"

text \<open>
  The scoping rule of the list operation as the specification words it: a doctor sees
  the appointments whose \<^verbatim>\<open>doctor_id\<close> is the id of the doctor's profile, every
  other role sees the appointments whose \<^verbatim>\<open>patient_id\<close> is the actor's own id.
\<close>

definition visible_to :: "User \<Rightarrow> Appointment \<Rightarrow> bool" where
  "visible_to u a =
     (if role u = Some ''doctor''
      then (case profile_of u of None \<Rightarrow> False | Some p \<Rightarrow> doctor_id a = doctor_pk p)
      else patient_id a = user_id u)"

text \<open>\<^verbatim>\<open>AppointmentUpdate()\<close> built from a body that sets none of its fields.\<close>

definition unset :: AppointmentUpdate where
  "unset = \<lparr>set_status = None, set_scheduled_date = None, set_duration_minutes = None,
            set_is_virtual = None, set_reason_for_visit = None, set_symptoms = None,
            set_notes = None, set_meeting_link = None, set_location = None\<rparr>"

section \<open>A small hospital\<close>

text \<open>
  The actors as the ORM loads them under the declared backref, with a collection in
  \<^verbatim>\<open>doctor_profile\<close>: two patients, a user with role doctor and no
  \<^verbatim>\<open>Doctor\<close> row, an administrator (their collections are empty) and the doctor
  of profile 10 (\<open>doctor_1_loaded\<close>). The same doctor once more, as the endpoints
  expect the object: with the \<^verbatim>\<open>Doctor\<close> itself in the attribute
  (\<open>doctor_1\<close>). Patient 1 has booked doctor profile 10, patient 2 doctor
  profile 11.
\<close>

definition patient_1 :: User where
  "patient_1 = \<lparr>user_id = 1, role = Some ''patient'', is_superuser = False,
                doctor_profile = Some (PyList [])\<rparr>"

definition patient_2 :: User where
  "patient_2 = \<lparr>user_id = 2, role = Some ''patient'', is_superuser = False,
                doctor_profile = Some (PyList [])\<rparr>"

definition doctor_1 :: User where
  "doctor_1 = \<lparr>user_id = 3, role = Some ''doctor'', is_superuser = False,
               doctor_profile = Some (PyDoctor \<lparr>doctor_pk = 10, doctor_user_id = 3\<rparr>)\<rparr>"

definition doctor_1_loaded :: User where
  "doctor_1_loaded = \<lparr>user_id = 3, role = Some ''doctor'', is_superuser = False,
               doctor_profile = Some (PyList [\<lparr>doctor_pk = 10, doctor_user_id = 3\<rparr>])\<rparr>"

definition doctor_without_profile :: User where
  "doctor_without_profile = \<lparr>user_id = 4, role = Some ''doctor'', is_superuser = False,
               doctor_profile = Some (PyList [])\<rparr>"

definition admin :: User where
  "admin = \<lparr>user_id = 5, role = Some ''admin'', is_superuser = True,
            doctor_profile = Some (PyList [])\<rparr>"

definition booking :: AppointmentCreate where
  "booking = \<lparr>in_doctor_id = 10, in_appointment_type = CONSULTATION, in_scheduled_date = 1000,
              in_duration_minutes = 30, in_is_virtual = False, in_reason_for_visit = None,
              in_symptoms = None, in_notes = None\<rparr>"

definition appointment_1 :: Appointment where
  "appointment_1 = new_appointment 1 booking patient_1 900"

definition appointment_2 :: Appointment where
  "appointment_2 = new_appointment 2 (booking\<lparr>in_doctor_id := 11\<rparr>) patient_2 901"

definition example_db :: db where
  "example_db = \<lparr>rows = [appointment_1, appointment_2], next_id = 3\<rparr>"

text \<open>A create request whose body names another patient.\<close>

definition booking_body :: body where
  "booking_body = [''doctor_id'' \<mapsto> JInt 10, ''scheduled_date'' \<mapsto> JDate 1000,
                   ''patient_id'' \<mapsto> JInt 2]"

section \<open>Auxiliary facts\<close>

lemmas example_defs = patient_1_def patient_2_def doctor_1_def doctor_1_loaded_def
  doctor_without_profile_def
  admin_def booking_def appointment_1_def appointment_2_def example_db_def booking_body_def
  new_appointment_def

lemmas endpoint_defs = read_appointments_def read_appointment_def read_denied_def
  update_appointment_def update_denied_def delete_appointment_def create_appointment_def
  create_appointment_request_def refresh_def query_first_def offset_limit_def
  hasattr_doctor_profile_def doctor_profile_id_def commit_update_def

lemma find_append_eq:
  "find P (xs @ ys) = (case find P xs of None \<Rightarrow> find P ys | Some x \<Rightarrow> Some x)"
  by (induction xs) auto

lemma query_first_SomeD:
  "query_first d i = Some a \<Longrightarrow> appointment_id a = i \<and> a \<in> set (rows d)"
  unfolding query_first_def by (auto simp: find_Some_iff)

lemma validate_create_ignores_patient_id:
  "validate_create (b(''patient_id'' := x)) = validate_create b"
  unfolding validate_create_def required_def defaulted_def
  by (simp cong: sum.case_cong)

lemma validate_update_ignores_keys:
  "validate_update (b(''patient_id'' := x, ''doctor_id'' := y)) = validate_update b"
  unfolding validate_update_def settable_def
  by (simp cong: sum.case_cong)

lemma create_appointment_result:
  assumes "create_appointment d ain u now = (Inr a, d')"
  shows "a = new_appointment (next_id d) ain u now \<and>
         d' = d\<lparr>rows := rows d @ [a], next_id := next_id d + 1\<rparr>"
  using assms unfolding create_appointment_def refresh_def query_first_def Let_def
  by (auto simp: find_append_eq new_appointment_def split: if_splits option.splits)

lemma setattr_keys:
  "appointment_id (setattr x a) = appointment_id a \<and>
   patient_id (setattr x a) = patient_id a \<and>
   doctor_id (setattr x a) = doctor_id a"
  by (cases x) simp_all

lemma apply_items_keys:
  "appointment_id (apply_items xs a) = appointment_id a \<and>
   patient_id (apply_items xs a) = patient_id a \<and>
   doctor_id (apply_items xs a) = doctor_id a"
  by (induction xs arbitrary: a) (simp_all add: setattr_keys)

lemma find_map_replace:
  assumes "find (\<lambda>r. appointment_id r = i) xs = Some a" and "appointment_id m = i"
  shows "find (\<lambda>r. appointment_id r = i) (map (\<lambda>r. if appointment_id r = i then m else r) xs) = Some m"
  using assms by (induction xs) (auto split: if_splits)

lemma commit_update_cases:
  assumes "query_first d i = Some a" and "commit_update d a m now = Inr d'"
    and "appointment_id m = i"
  shows "(m = a \<and> d' = d \<and> query_first d' i = Some a) \<or>
         (m \<noteq> a \<and> query_first d' i = Some (m\<lparr>updated_at := Some now\<rparr>))"
proof -
  have ia: "appointment_id a = i" using assms(1) by (simp add: query_first_SomeD)
  show ?thesis
  proof (cases "m = a")
    case True
    with assms show ?thesis by (simp add: commit_update_def)
  next
    case False
    with assms(2) have d': "d' = d\<lparr>rows := map (\<lambda>r. if appointment_id r = i
                                     then m\<lparr>updated_at := Some now\<rparr> else r) (rows d)\<rparr>"
      by (simp add: commit_update_def ia split: if_splits)
    have "query_first d' i = Some (m\<lparr>updated_at := Some now\<rparr>)"
      unfolding d' query_first_def using assms(1,3)
      by (simp add: query_first_def find_map_replace)
    with False show ?thesis by simp
  qed
qed

lemma update_appointment_success:
  assumes q: "query_first d i = Some a"
    and r: "update_appointment d i p u now = (Inr a', d')"
  shows "update_denied u a = Inr False \<and>
         (let m = apply_items (model_dump_exclude_unset p) a in
            (m = a \<and> a' = a \<and> d' = d) \<or>
            (m \<noteq> a \<and> a' = m\<lparr>updated_at := Some now\<rparr>)) \<and>
         query_first d' i = Some a'"
proof -
  let ?m = "apply_items (model_dump_exclude_unset p) a"
  from r q have den: "update_denied u a = Inr False"
    unfolding update_appointment_def by (auto split: sum.splits bool.splits)
  from r q den obtain d1 where c: "commit_update d a ?m now = Inr d1"
    and rf: "refresh d1 i = (Inr a', d')"
    unfolding update_appointment_def by (auto split: sum.splits)
  have im: "appointment_id ?m = i" using q by (simp add: apply_items_keys query_first_SomeD)
  from rf have dd: "d' = d1" and qa: "query_first d1 i = Some a'"
    unfolding refresh_def by (auto split: option.splits)
  from commit_update_cases[OF q c im] qa dd den show ?thesis
    by (auto simp: Let_def)
qed

lemma update_appointment_error:
  assumes "update_appointment d i p u now = (Inl e, d')"
  shows "d' = d"
proof (cases "query_first d i")
  case None
  with assms show ?thesis by (simp add: update_appointment_def)
next
  case (Some a)
  show ?thesis
  proof (cases "update_denied u a")
    case (Inl x)
    with Some assms show ?thesis by (simp add: update_appointment_def)
  next
    case (Inr b)
    show ?thesis
    proof (cases b)
      case True
      with Inr Some assms show ?thesis by (simp add: update_appointment_def)
    next
      case False
      let ?m = "apply_items (model_dump_exclude_unset p) a"
      show ?thesis
      proof (cases "commit_update d a ?m now")
        case (Inl x)
        with False Inr Some assms show ?thesis by (simp add: update_appointment_def)
      next
        case (Inr d1)
        have im: "appointment_id ?m = i" using Some by (simp add: apply_items_keys query_first_SomeD)
        from commit_update_cases[OF Some Inr im] have "query_first d1 i \<noteq> None" by auto
        with False \<open>update_denied u a = Inr b\<close> Some Inr assms show ?thesis
          by (auto simp: update_appointment_def refresh_def split: option.splits)
      qed
    qed
  qed
qed

lemma example_query_first: "query_first example_db 1 = Some appointment_1"
  by (simp add: example_defs endpoint_defs)

lemma example_validate_create: "validate_create booking_body = Inr booking"
  by (simp add: example_defs validate_create_def required_def defaulted_def)

lemma as_errors:
  "as_status v = Inl e \<Longrightarrow> e = ValidationError"
  "as_type v = Inl e \<Longrightarrow> e = ValidationError"
  "as_datetime v = Inl e \<Longrightarrow> e = ValidationError"
  "as_int v = Inl e \<Longrightarrow> e = ValidationError"
  "as_bool v = Inl e \<Longrightarrow> e = ValidationError"
  "as_str v = Inl e \<Longrightarrow> e = ValidationError"
  by (cases v; auto split: option.splits)+

lemma settable_errors:
  "settable b k as_status = Inl e \<Longrightarrow> e = ValidationError"
  "settable b k as_datetime = Inl e \<Longrightarrow> e = ValidationError"
  "settable b k as_int = Inl e \<Longrightarrow> e = ValidationError"
  "settable b k as_bool = Inl e \<Longrightarrow> e = ValidationError"
  "settable b k as_str = Inl e \<Longrightarrow> e = ValidationError"
  by (auto simp: settable_def optional_def split: option.splits sum.splits if_splits
        dest: as_errors)

lemma required_errors:
  "required b k as_int = Inl e \<Longrightarrow> e = ValidationError"
  "required b k as_datetime = Inl e \<Longrightarrow> e = ValidationError"
  by (auto simp: required_def split: option.splits dest: as_errors)

lemma defaulted_errors:
  "defaulted b k as_type t = Inl e \<Longrightarrow> e = ValidationError"
  "defaulted b k as_int n = Inl e \<Longrightarrow> e = ValidationError"
  "defaulted b k as_bool c = Inl e \<Longrightarrow> e = ValidationError"
  "defaulted b k (optional as_str) x = Inl e \<Longrightarrow> e = ValidationError"
  by (auto simp: defaulted_def optional_def split: option.splits sum.splits if_splits
        dest: as_errors)

lemma validate_create_error:
  assumes "validate_create b = Inl e"
  shows "e = ValidationError"
  using assms unfolding validate_create_def
  by (auto split: sum.splits dest: required_errors defaulted_errors)

lemma validate_update_error:
  assumes "validate_update b = Inl e"
  shows "e = ValidationError"
  using assms unfolding validate_update_def
  by (auto split: sum.splits dest: settable_errors)

lemma getattr_id_error: "getattr_id v = Inl e \<Longrightarrow> e = AttributeError"
  by (cases v) simp_all

lemma read_denied_error: "read_denied u a = Inl e \<Longrightarrow> e = AttributeError"
  by (auto simp: read_denied_def hasattr_doctor_profile_def doctor_profile_id_def
        split: if_splits sum.splits option.splits dest: getattr_id_error)

lemma update_denied_eq: "update_denied u a = read_denied u a"
  by (simp add: read_denied_def update_denied_def)

lemma update_appointment_after_check:
  assumes "query_first d i = Some a" and "update_denied u a = Inr False"
  shows "fst (update_appointment d i p u now) = Inl IntegrityError \<or>
         (\<exists>r. fst (update_appointment d i p u now) = Inr r)"
proof -
  let ?m = "apply_items (model_dump_exclude_unset p) a"
  have im: "appointment_id ?m = i" using assms(1) by (simp add: apply_items_keys query_first_SomeD)
  show ?thesis
  proof (cases "commit_update d a ?m now")
    case (Inl x)
    then have "x = IntegrityError" by (auto simp: commit_update_def split: if_splits)
    with Inl assms show ?thesis by (simp add: update_appointment_def)
  next
    case (Inr d1)
    from commit_update_cases [OF assms(1) Inr im] obtain r where "query_first d1 i = Some r"
      by auto
    with Inr assms show ?thesis by (simp add: update_appointment_def refresh_def)
  qed
qed

lemma access_predicate:
  assumes "doctor_profile u = None \<or> profile_of u \<noteq> None"
  shows "read_denied u a =
           Inr (\<not> (patient_id a = user_id u \<or>
                    (\<exists>p. profile_of u = Some p \<and> doctor_pk p = doctor_id a) \<or>
                    is_superuser u))"
  using assms
  by (auto simp: read_denied_def hasattr_doctor_profile_def doctor_profile_id_def profile_of_def
        split: option.splits pyval.splits)

lemma read_appointments_scoped:
  assumes "0 \<le> skip" and "0 \<le> limit"
    and "role u = Some ''doctor'' \<longrightarrow> doctor_profile u = None \<or> profile_of u \<noteq> None"
  shows "read_appointments d skip limit u =
           (Inr (take (nat limit) (drop (nat skip) (filter (visible_to u) (rows d)))), d)"
proof (cases "role u = Some ''doctor''")
  case False
  then have "visible_to u = (\<lambda>a. patient_id a = user_id u)"
    by (simp add: visible_to_def fun_eq_iff)
  with False assms(1,2) show ?thesis
    by (simp add: read_appointments_def offset_limit_def)
next
  case True
  with assms(3) consider "doctor_profile u = None" | p where "doctor_profile u = Some (PyDoctor p)"
    by (auto simp: profile_of_def split: option.splits pyval.splits)
  then show ?thesis
  proof cases
    case 1
    then have "visible_to u = (\<lambda>a. False)"
      using True by (simp add: visible_to_def profile_of_def fun_eq_iff)
    with 1 True assms(1,2) show ?thesis
      by (simp add: read_appointments_def offset_limit_def hasattr_doctor_profile_def)
  next
    case 2
    then have "visible_to u = (\<lambda>a. doctor_id a = doctor_pk p)"
      using True by (simp add: visible_to_def profile_of_def fun_eq_iff)
    with 2 True assms(1,2) show ?thesis
      by (simp add: read_appointments_def offset_limit_def hasattr_doctor_profile_def
            doctor_profile_id_def)
  qed
qed

section \<open>Claims\<close>

text \<open>
  C1. The appointment that a create request of an actor returns has the actor's id as
  \<^verbatim>\<open>patient_id\<close>, whatever the request body holds under the key
  \<^verbatim>\<open>patient_id\<close>: the whole outcome of the request is the same for every value
  of that key (and for its absence), and the returned appointment, which is the row the
  store then holds under its id, carries \<open>user_id u\<close>. A request with a valid body
  does return an appointment (the key drawn from the sequence being free).
\<close>

theorem create_forces_patient_id:
  "create_appointment_request d (b(''patient_id'' := x)) u now =
     create_appointment_request d b u now \<and>
   (create_appointment_request d b u now = (Inr a, d') \<longrightarrow>
      patient_id a = user_id u \<and> query_first d' (appointment_id a) = Some a) \<and>
   (validate_create b \<noteq> Inl ValidationError \<and> query_first d (next_id d) = None \<longrightarrow>
      (\<exists>r e. create_appointment_request d b u now = (Inr r, e)))"
proof (intro conjI impI)
  show "create_appointment_request d (b(''patient_id'' := x)) u now =
     create_appointment_request d b u now"
    unfolding create_appointment_request_def by (simp only: validate_create_ignores_patient_id)
next
  assume h: "create_appointment_request d b u now = (Inr a, d')"
  then obtain ain where c: "create_appointment d ain u now = (Inr a, d')"
    unfolding create_appointment_request_def by (auto split: sum.splits)
  from create_appointment_result[OF c] show "patient_id a = user_id u"
    by (simp add: new_appointment_def)
  from c show "query_first d' (appointment_id a) = Some a"
    unfolding create_appointment_def refresh_def Let_def
    by (auto simp: new_appointment_def query_first_def find_append_eq split: if_splits option.splits)
next
  assume h: "validate_create b \<noteq> Inl ValidationError \<and> query_first d (next_id d) = None"
  then obtain ain where v: "validate_create b = Inr ain"
    by (cases "validate_create b") (auto dest: validate_create_error)
  with h show "\<exists>r e. create_appointment_request d b u now = (Inr r, e)"
    by (simp add: create_appointment_request_def create_appointment_def refresh_def Let_def
          query_first_def find_append_eq new_appointment_def)
qed

theorem create_forces_patient_id_witness:
  "create_appointment_request example_db (booking_body(''patient_id'' := None)) patient_1 950 =
     create_appointment_request example_db booking_body patient_1 950 \<and>
   create_appointment_request example_db booking_body patient_1 950 =
     (Inr (new_appointment 3 booking patient_1 950),
      example_db\<lparr>rows := rows example_db @ [new_appointment 3 booking patient_1 950],
                 next_id := 4\<rparr>) \<and>
   booking_body ''patient_id'' = Some (JInt 2) \<and>
   patient_id (new_appointment 3 booking patient_1 950) = user_id patient_1 \<and>
   user_id patient_1 = 1"
proof -
  have r: "create_appointment_request example_db booking_body patient_1 950 =
     (Inr (new_appointment 3 booking patient_1 950),
      example_db\<lparr>rows := rows example_db @ [new_appointment 3 booking patient_1 950],
                 next_id := 4\<rparr>)"
    by (simp add: example_validate_create endpoint_defs Let_def) (simp add: example_defs)
  from create_forces_patient_id [of example_db booking_body None patient_1 950
      "new_appointment 3 booking patient_1 950"
      "example_db\<lparr>rows := rows example_db @ [new_appointment 3 booking patient_1 950],
                 next_id := 4\<rparr>"] r
  show ?thesis by (simp add: booking_body_def patient_1_def)
qed

text \<open>
  C2. The claim: the read of an existing appointment by an actor who is not its patient,
  not a superuser and has no doctor profile (or another one) fails with
  \<open>Forbidden\<close>, and the read by a superuser succeeds. The code: patient 2, a user
  without any \<^verbatim>\<open>Doctor\<close> row, reads the appointment of patient 1. The actor
  object has the attribute \<^verbatim>\<open>doctor_profile\<close> (the backref puts it on every
  \<^verbatim>\<open>User\<close>), so \<^verbatim>\<open>not hasattr(...)\<close> is false and
  \<^verbatim>\<open>current_user.doctor_profile.id\<close> is evaluated on the empty collection: the
  endpoint ends in \<^verbatim>\<open>AttributeError\<close>, not in the 403 it was written to raise.
  The administrator, a superuser without a \<^verbatim>\<open>Doctor\<close> row, meets the same
  exception before \<^verbatim>\<open>is_superuser\<close> is looked at, and so does the doctor of
  the appointment, whose profile the backref delivers inside a collection.
\<close>

theorem read_by_actor_without_profile_raises:
  "query_first example_db 1 = Some appointment_1 \<and>
   user_id patient_2 \<noteq> patient_id appointment_1 \<and>
   \<not> is_superuser patient_2 \<and>
   profile_of patient_2 = None \<and>
   read_appointment example_db 1 patient_2 = (Inl AttributeError, example_db) \<and>
   is_superuser admin \<and>
   read_appointment example_db 1 admin = (Inl AttributeError, example_db) \<and>
   doctor_profile doctor_1_loaded = Some (PyList [\<lparr>doctor_pk = 10, doctor_user_id = 3\<rparr>]) \<and>
   doctor_id appointment_1 = 10 \<and>
   read_appointment example_db 1 doctor_1_loaded = (Inl AttributeError, example_db)"
  by (simp add: example_defs endpoint_defs profile_of_def)

text \<open>
  C3. For an existing appointment: the delete by the actor whose id is its
  \<^verbatim>\<open>patient_id\<close> succeeds, the store then holds no row of that id and a read
  of the id, by any actor, ends in \<open>NotFound\<close>; the delete by an actor who is
  neither the patient nor a superuser - the doctor of the appointment among them - ends
  in \<open>Forbidden\<close> and leaves the store as it was.
\<close>

theorem delete_by_owner_then_not_found:
  assumes "query_first d i = Some a"
  shows "(user_id u = patient_id a \<longrightarrow>
            fst (delete_appointment d i u) = Inr ''Appointment deleted successfully'' \<and>
            query_first (snd (delete_appointment d i u)) i = None \<and>
            fst (read_appointment (snd (delete_appointment d i u)) i v) = Inl NotFound) \<and>
         (user_id u \<noteq> patient_id a \<and> \<not> is_superuser u \<longrightarrow>
            delete_appointment d i u = (Inl Forbidden, d))"
proof -
  have ia: "appointment_id a = i" using assms by (simp add: query_first_SomeD)
  have gone: "find (\<lambda>r. appointment_id r = i) (filter (\<lambda>r. appointment_id r \<noteq> i) xs) = None" for xs
    by (induction xs) auto
  show ?thesis using assms ia gone
    by (auto simp: delete_appointment_def read_appointment_def query_first_def)
qed

theorem delete_by_owner_then_not_found_witness:
  "query_first example_db 1 = Some appointment_1 \<and>
   user_id patient_1 = patient_id appointment_1 \<and>
   fst (delete_appointment example_db 1 patient_1) = Inr ''Appointment deleted successfully'' \<and>
   fst (read_appointment (snd (delete_appointment example_db 1 patient_1)) 1 patient_1) = Inl NotFound \<and>
   doctor_profile_id doctor_1 = Inr (doctor_id appointment_1) \<and>
   user_id doctor_1 \<noteq> patient_id appointment_1 \<and> \<not> is_superuser doctor_1 \<and>
   delete_appointment example_db 1 doctor_1 = (Inl Forbidden, example_db)"
proof -
  have q: "query_first example_db 1 = Some appointment_1"
    by (simp add: example_defs query_first_def)
  have o: "user_id patient_1 = patient_id appointment_1"
    by (simp add: example_defs)
  have n: "user_id doctor_1 \<noteq> patient_id appointment_1 \<and> \<not> is_superuser doctor_1"
    by (simp add: example_defs)
  have p: "doctor_profile_id doctor_1 = Inr (doctor_id appointment_1)"
    by (simp add: example_defs doctor_profile_id_def)
  from delete_by_owner_then_not_found [OF q, of patient_1 patient_1]
       delete_by_owner_then_not_found [OF q, of doctor_1 doctor_1] q o n p
  show ?thesis by simp
qed

text \<open>
  C4. The claim: the list operation of an actor with role doctor and no linked doctor
  profile returns the empty sequence. The code: for a user with role doctor and no
  \<^verbatim>\<open>Doctor\<close> row the attribute \<^verbatim>\<open>doctor_profile\<close> exists and is the empty
  collection, so the conditional expression takes its first branch and
  \<^verbatim>\<open>current_user.doctor_profile.id\<close> raises \<^verbatim>\<open>AttributeError\<close>; the
  fallback \<^verbatim>\<open>else False\<close> is taken only by an object without the attribute.
\<close>

theorem list_by_doctor_without_profile_raises:
  "role doctor_without_profile = Some ''doctor'' \<and>
   profile_of doctor_without_profile = None \<and>
   read_appointments example_db 0 100 doctor_without_profile = (Inl AttributeError, example_db) \<and>
   read_appointments example_db 0 100 (doctor_without_profile\<lparr>doctor_profile := Some PyNone\<rparr>)
     = (Inl AttributeError, example_db) \<and>
   read_appointments example_db 0 100 (doctor_without_profile\<lparr>doctor_profile := None\<rparr>)
     = (Inr [], example_db)"
  by (simp add: example_defs endpoint_defs profile_of_def)

text \<open>
  C5. For an existing appointment and an update request whose payload sets the field
  \<^verbatim>\<open>status\<close> and no other (the dump with \<^verbatim>\<open>exclude_unset\<close> is the one
  item \<open>Status s\<close>, as for the body \<^verbatim>\<open>{"status": "completed"}\<close>): when the
  update succeeds, the appointment returned, which is the row then stored, is the old one
  with \<^verbatim>\<open>status\<close> set to \<open>s\<close> and with \<^verbatim>\<open>updated_at\<close> either kept (no
  net change, no \<^verbatim>\<open>UPDATE\<close>) or set to the time of the commit; every other field
  keeps its value. And the update does succeed whenever the permission test passes (the
  stored \<^verbatim>\<open>scheduled_date\<close> being present, as its column demands).
\<close>

theorem update_of_status_only:
  assumes "query_first d i = Some a"
    and "validate_update b = Inr p"
    and "model_dump_exclude_unset p = [Status s]"
  shows "(update_appointment_request d i b u now = (Inr a', d') \<longrightarrow>
            a' = a\<lparr>status := s, updated_at := updated_at a'\<rparr> \<and>
            (updated_at a' = updated_at a \<or> updated_at a' = Some now) \<and>
            query_first d' i = Some a') \<and>
         (update_denied u a = Inr False \<and> scheduled_date a \<noteq> None \<longrightarrow>
            (\<exists>r e. update_appointment_request d i b u now = (Inr r, e)))"
proof (intro conjI impI)
  assume "update_appointment_request d i b u now = (Inr a', d')"
  then have r: "update_appointment d i p u now = (Inr a', d')"
    by (simp add: update_appointment_request_def assms(2))
  from update_appointment_success [OF assms(1) r]
  have c: "(a\<lparr>status := s\<rparr> = a \<and> a' = a \<and> d' = d) \<or>
           (a\<lparr>status := s\<rparr> \<noteq> a \<and> a' = a\<lparr>status := s, updated_at := Some now\<rparr>)"
    and q: "query_first d' i = Some a'"
    by (simp_all add: assms(3) Let_def)
  from q show "query_first d' i = Some a'" .
  from c show "a' = a\<lparr>status := s, updated_at := updated_at a'\<rparr>"
  proof
    assume h: "a\<lparr>status := s\<rparr> = a \<and> a' = a \<and> d' = d"
    then have "status (a\<lparr>status := s\<rparr>) = status a" by simp
    then have "s = status a" by simp
    with h show ?thesis by simp
  next
    assume "a\<lparr>status := s\<rparr> \<noteq> a \<and> a' = a\<lparr>status := s, updated_at := Some now\<rparr>"
    then show ?thesis by simp
  qed
  from c show "updated_at a' = updated_at a \<or> updated_at a' = Some now" by auto
next
  assume h: "update_denied u a = Inr False \<and> scheduled_date a \<noteq> None"
  let ?m = "a\<lparr>status := s\<rparr>"
  have im: "appointment_id ?m = i" using assms(1) by (simp add: query_first_SomeD)
  from h have "\<exists>d1. commit_update d a ?m now = Inr d1"
    by (auto simp: commit_update_def)
  then obtain d1 where c: "commit_update d a ?m now = Inr d1" ..
  from commit_update_cases [OF assms(1) c im] obtain r where "query_first d1 i = Some r"
    by auto
  with c h assms show "\<exists>r e. update_appointment_request d i b u now = (Inr r, e)"
    by (simp add: update_appointment_request_def update_appointment_def refresh_def)
qed

theorem update_of_status_only_witness:
  "query_first example_db 1 = Some appointment_1 \<and>
   validate_update [''status'' \<mapsto> JStr ''completed''] =
     Inr (unset\<lparr>set_status := Some (Some COMPLETED)\<rparr>) \<and>
   model_dump_exclude_unset (unset\<lparr>set_status := Some (Some COMPLETED)\<rparr>) = [Status (Some COMPLETED)] \<and>
   update_denied patient_1 appointment_1 = Inr False \<and>
   scheduled_date appointment_1 \<noteq> None \<and>
   update_appointment_request example_db 1 [''status'' \<mapsto> JStr ''completed''] patient_1 950 =
     (Inr (appointment_1\<lparr>status := Some COMPLETED, updated_at := Some 950\<rparr>),
      example_db\<lparr>rows := [appointment_1\<lparr>status := Some COMPLETED, updated_at := Some 950\<rparr>,
                           appointment_2]\<rparr>) \<and>
   status appointment_1 = Some SCHEDULED \<and> updated_at appointment_1 = Some 900"
proof -
  have q: "query_first example_db 1 = Some appointment_1"
    by (rule example_query_first)
  have v: "validate_update [''status'' \<mapsto> JStr ''completed''] =
     Inr (unset\<lparr>set_status := Some (Some COMPLETED)\<rparr>)"
    by (simp add: validate_update_def settable_def optional_def unset_def)
  have m: "model_dump_exclude_unset (unset\<lparr>set_status := Some (Some COMPLETED)\<rparr>) =
             [Status (Some COMPLETED)]"
    by (simp add: model_dump_exclude_unset_def dump_field_def unset_def)
  have r: "update_appointment_request example_db 1 [''status'' \<mapsto> JStr ''completed''] patient_1 950 =
     (Inr (appointment_1\<lparr>status := Some COMPLETED, updated_at := Some 950\<rparr>),
      example_db\<lparr>rows := [appointment_1\<lparr>status := Some COMPLETED, updated_at := Some 950\<rparr>,
                           appointment_2]\<rparr>)"
    unfolding update_appointment_request_def v
    by (simp add: m update_appointment_def update_denied_def commit_update_def
          refresh_def query_first_def example_defs)
  have o: "update_denied patient_1 appointment_1 = Inr False \<and>
           scheduled_date appointment_1 \<noteq> None \<and>
           status appointment_1 = Some SCHEDULED \<and> updated_at appointment_1 = Some 900"
    by (simp add: update_denied_def example_defs)
  from update_of_status_only [OF q v m, of patient_1 950] q v m r o
  show ?thesis by simp
qed

text \<open>
  C6. The claim: for every actor the list operation returns exactly the appointments
  that the scoping rule makes visible, for a doctor those whose \<^verbatim>\<open>doctor_id\<close>
  is the id of the doctor's profile. The code: for every role but doctor it does
  (\<open>read_appointments_scoped\<close>), and for a doctor it does when the attribute
  \<^verbatim>\<open>doctor_profile\<close> holds the \<^verbatim>\<open>Doctor\<close> object itself. The declared
  backref delivers a collection: the doctor of profile 10 is loaded with
  \<^verbatim>\<open>doctor_profile == [Doctor(id=10)]\<close>, appointment 1 is booked with that
  profile, and the list operation ends in \<^verbatim>\<open>AttributeError\<close>, raised by
  \<^verbatim>\<open>current_user.doctor_profile.id\<close>, instead of returning appointment 1.
\<close>

theorem list_by_loaded_doctor_raises:
  "role doctor_1_loaded = Some ''doctor'' \<and>
   doctor_profile doctor_1_loaded = Some (PyList [\<lparr>doctor_pk = 10, doctor_user_id = 3\<rparr>]) \<and>
   rows example_db = [appointment_1, appointment_2] \<and>
   doctor_id appointment_1 = 10 \<and>
   read_appointments example_db 0 100 doctor_1_loaded = (Inl AttributeError, example_db) \<and>
   read_appointments example_db 0 100 doctor_1 = (Inr [appointment_1], example_db) \<and>
   read_appointments example_db 0 100 patient_2 = (Inr [appointment_2], example_db)"
  by (simp add: example_defs endpoint_defs)

text \<open>
  C7. For a superuser and an existing appointment, none of read, update (with any
  payload, any body) and delete ends in \<open>Forbidden\<close>. The delete always succeeds and
  removes the row. The permission test of read and update either passes, and then the read
  returns the appointment, or it ends in \<^verbatim>\<open>AttributeError\<close>, raised by
  \<^verbatim>\<open>current_user.doctor_profile.id\<close> before \<^verbatim>\<open>is_superuser\<close> is looked at
  (see C2).
\<close>

theorem superuser_never_forbidden:
  assumes "is_superuser u" and "query_first d i = Some a"
  shows "fst (read_appointment d i u) \<noteq> Inl Forbidden \<and>
         fst (update_appointment d i p u now) \<noteq> Inl Forbidden \<and>
         fst (update_appointment_request d i b u now) \<noteq> Inl Forbidden \<and>
         delete_appointment d i u =
           (Inr ''Appointment deleted successfully'',
            d\<lparr>rows := filter (\<lambda>r. appointment_id r \<noteq> i) (rows d)\<rparr>) \<and>
         (read_denied u a = Inr False \<or> read_denied u a = Inl AttributeError) \<and>
         (read_denied u a = Inr False \<longrightarrow> read_appointment d i u = (Inr a, d))"
proof -
  have ia: "appointment_id a = i" using assms(2) by (simp add: query_first_SomeD)
  have rd: "read_denied u a = Inr False \<or> read_denied u a = Inl AttributeError"
    using assms(1)
    by (cases "doctor_profile u")
       (auto simp: read_denied_def hasattr_doctor_profile_def doctor_profile_id_def
             split: sum.splits elim: getattr_id.elims)
  have ud: "update_denied u a = read_denied u a"
    by (simp add: read_denied_def update_denied_def)
  have r: "fst (read_appointment d i u) \<noteq> Inl Forbidden"
    using rd assms(2) by (auto simp: read_appointment_def)
  have nf: "fst (update_appointment d i q u now) \<noteq> Inl Forbidden" for q
  proof
    assume h: "fst (update_appointment d i q u now) = Inl Forbidden"
    from rd show False
    proof
      assume "read_denied u a = Inl AttributeError"
      with h ud assms(2) show False by (simp add: update_appointment_def)
    next
      assume ok: "read_denied u a = Inr False"
      let ?m = "apply_items (model_dump_exclude_unset q) a"
      have im: "appointment_id ?m = i" using ia by (simp add: apply_items_keys)
      show False
      proof (cases "commit_update d a ?m now")
        case (Inl x)
        then have "x = IntegrityError" by (auto simp: commit_update_def split: if_splits)
        with Inl h ok ud assms(2) show False by (simp add: update_appointment_def)
      next
        case (Inr d1)
        from commit_update_cases [OF assms(2) Inr im] obtain r where "query_first d1 i = Some r"
          by auto
        with Inr h ok ud assms(2) show False by (simp add: update_appointment_def refresh_def)
      qed
    qed
  qed
  have rq: "fst (update_appointment_request d i b u now) \<noteq> Inl Forbidden"
    using nf by (auto simp: update_appointment_request_def split: sum.splits
                       dest: validate_update_error)
  show ?thesis using r nf rq rd assms ia
    by (auto simp: delete_appointment_def read_appointment_def)
qed

theorem superuser_never_forbidden_witness:
  "is_superuser admin \<and> query_first example_db 1 = Some appointment_1 \<and>
   user_id admin \<noteq> patient_id appointment_1 \<and>
   fst (read_appointment example_db 1 admin) \<noteq> Inl Forbidden \<and>
   fst (update_appointment example_db 1 unset admin 950) \<noteq> Inl Forbidden \<and>
   delete_appointment example_db 1 admin =
     (Inr ''Appointment deleted successfully'', example_db\<lparr>rows := [appointment_2]\<rparr>) \<and>
   read_appointment example_db 1 (admin\<lparr>doctor_profile := None\<rparr>) = (Inr appointment_1, example_db)"
proof -
  have s: "is_superuser admin" "is_superuser (admin\<lparr>doctor_profile := None\<rparr>)"
    by (simp_all add: admin_def)
  have q: "query_first example_db 1 = Some appointment_1"
    by (rule example_query_first)
  have n: "user_id admin \<noteq> patient_id appointment_1"
    by (simp add: example_defs)
  have f: "filter (\<lambda>r. appointment_id r \<noteq> 1) (rows example_db) = [appointment_2]"
    by (simp add: example_defs)
  have ok: "read_denied (admin\<lparr>doctor_profile := None\<rparr>) appointment_1 = Inr False"
    by (simp add: read_denied_def hasattr_doctor_profile_def example_defs)
  from superuser_never_forbidden [OF s(1) q, of unset 950 Map.empty]
       superuser_never_forbidden [OF s(2) q, of unset 950 Map.empty] s q n f ok
  show ?thesis by simp
qed

text \<open>
  C8. For an existing appointment and an update with any payload: the appointment that a
  successful update returns, which is the row then stored under the id, has the
  \<^verbatim>\<open>patient_id\<close>, the \<^verbatim>\<open>doctor_id\<close> and the id of the old one; and whatever
  a body holds under the keys \<^verbatim>\<open>patient_id\<close> and \<^verbatim>\<open>doctor_id\<close> makes no
  difference to the outcome of the request.
\<close>

theorem update_keeps_patient_and_doctor:
  assumes "query_first d i = Some a"
  shows "(update_appointment d i p u now = (Inr a', d') \<longrightarrow>
            patient_id a' = patient_id a \<and> doctor_id a' = doctor_id a \<and>
            appointment_id a' = i \<and> query_first d' i = Some a') \<and>
         (update_appointment_request d i b u now = (Inr a', d') \<longrightarrow>
            patient_id a' = patient_id a \<and> doctor_id a' = doctor_id a \<and>
            appointment_id a' = i \<and> query_first d' i = Some a') \<and>
         update_appointment_request d i (b(''patient_id'' := x, ''doctor_id'' := y)) u now =
           update_appointment_request d i b u now"
proof -
  have t: "patient_id r = patient_id a \<and> doctor_id r = doctor_id a \<and>
           appointment_id r = i \<and> query_first e i = Some r"
    if "update_appointment d i q u now = (Inr r, e)" for q r e
  proof -
    let ?m = "apply_items (model_dump_exclude_unset q) a"
    from update_appointment_success [OF assms that]
    have "r = a \<or> r = ?m\<lparr>updated_at := Some now\<rparr>" and "query_first e i = Some r"
      by (auto simp: Let_def)
    then show ?thesis using assms by (auto simp: apply_items_keys query_first_SomeD)
  qed
  have rq: "patient_id a' = patient_id a \<and> doctor_id a' = doctor_id a \<and>
            appointment_id a' = i \<and> query_first d' i = Some a'"
    if "update_appointment_request d i b u now = (Inr a', d')"
  proof -
    from that obtain q where "update_appointment d i q u now = (Inr a', d')"
      by (auto simp: update_appointment_request_def split: sum.splits)
    then show ?thesis by (rule t)
  qed
  have ig: "update_appointment_request d i (b(''patient_id'' := x, ''doctor_id'' := y)) u now =
           update_appointment_request d i b u now"
    unfolding update_appointment_request_def by (simp only: validate_update_ignores_keys)
  from t [of p a' d'] rq ig show ?thesis by blast
qed

theorem update_keeps_patient_and_doctor_witness:
  "query_first example_db 1 = Some appointment_1 \<and>
   update_appointment_request example_db 1
       [''status'' \<mapsto> JStr ''completed'', ''patient_id'' \<mapsto> JInt 2, ''doctor_id'' \<mapsto> JInt 11]
       patient_1 950 =
     (Inr (appointment_1\<lparr>status := Some COMPLETED, updated_at := Some 950\<rparr>),
      example_db\<lparr>rows := [appointment_1\<lparr>status := Some COMPLETED, updated_at := Some 950\<rparr>,
                           appointment_2]\<rparr>) \<and>
   patient_id (appointment_1\<lparr>status := Some COMPLETED, updated_at := Some 950\<rparr>) = 1 \<and>
   doctor_id (appointment_1\<lparr>status := Some COMPLETED, updated_at := Some 950\<rparr>) = 10"
proof -
  let ?b = "[''status'' \<mapsto> JStr ''completed'', ''patient_id'' \<mapsto> JInt 2,
             ''doctor_id'' \<mapsto> JInt 11]"
  let ?a = "appointment_1\<lparr>status := Some COMPLETED, updated_at := Some 950\<rparr>"
  let ?d = "example_db\<lparr>rows := [?a, appointment_2]\<rparr>"
  have q: "query_first example_db 1 = Some appointment_1"
    by (rule example_query_first)
  have v: "validate_update ?b = Inr (unset\<lparr>set_status := Some (Some COMPLETED)\<rparr>)"
    by (simp add: validate_update_def settable_def optional_def unset_def)
  have m: "model_dump_exclude_unset (unset\<lparr>set_status := Some (Some COMPLETED)\<rparr>) =
             [Status (Some COMPLETED)]"
    by (simp add: model_dump_exclude_unset_def dump_field_def unset_def)
  have r: "update_appointment_request example_db 1 ?b patient_1 950 = (Inr ?a, ?d)"
    unfolding update_appointment_request_def v
    by (simp add: m update_appointment_def update_denied_def commit_update_def
          refresh_def query_first_def example_defs)
  have k: "patient_id appointment_1 = 1 \<and> doctor_id appointment_1 = 10"
    by (simp add: example_defs)
  from update_keeps_patient_and_doctor [OF q, of unset patient_1 950 ?a ?d ?b None None] q r k
  show ?thesis by simp
qed

text \<open>
  C9. Update and read decide access alike: the two permission tests give the same result
  for every actor and appointment; on every store, the update ends in \<open>Forbidden\<close>
  exactly when the read does, and the read succeeds exactly when the update gets past its
  lookup and its permission test. Where the actor's profile is readable the common test
  admits exactly the patient of the appointment, the doctor of the appointment and a
  superuser.
\<close>

theorem update_permitted_iff_read_permitted:
  "update_denied u a = read_denied u a \<and>
   (fst (update_appointment d i p u now) = Inl Forbidden \<longleftrightarrow>
      fst (read_appointment d i u) = Inl Forbidden) \<and>
   ((\<exists>r. fst (read_appointment d i u) = Inr r) \<longleftrightarrow>
      fst (update_appointment d i p u now) \<notin> {Inl NotFound, Inl Forbidden, Inl AttributeError}) \<and>
   (doctor_profile u = None \<or> profile_of u \<noteq> None \<longrightarrow>
      update_denied u a =
        Inr (\<not> (patient_id a = user_id u \<or>
                 (\<exists>p. profile_of u = Some p \<and> doctor_pk p = doctor_id a) \<or>
                 is_superuser u)))"
proof -
  have main: "(fst (update_appointment d i p u now) = Inl Forbidden \<longleftrightarrow>
      fst (read_appointment d i u) = Inl Forbidden) \<and>
   ((\<exists>r. fst (read_appointment d i u) = Inr r) \<longleftrightarrow>
      fst (update_appointment d i p u now) \<notin> {Inl NotFound, Inl Forbidden, Inl AttributeError})"
  proof (cases "query_first d i")
    case None
    then show ?thesis by (simp add: update_appointment_def read_appointment_def)
  next
    case (Some r)
    show ?thesis
    proof (cases "read_denied u r")
      case (Inl e)
      then have "e = AttributeError" by (rule read_denied_error)
      with Inl Some show ?thesis
        by (simp add: update_appointment_def read_appointment_def update_denied_eq)
    next
      case (Inr c)
      show ?thesis
      proof (cases c)
        case True
        with Inr Some show ?thesis
          by (simp add: update_appointment_def read_appointment_def update_denied_eq)
      next
        case False
        with Inr have ok: "update_denied u r = Inr False" by (simp add: update_denied_eq)
        from update_appointment_after_check [OF Some ok, of p now]
        have "fst (update_appointment d i p u now) \<notin>
                {Inl NotFound, Inl Forbidden, Inl AttributeError}" by auto
        moreover have "fst (read_appointment d i u) = Inr r"
          using False Inr Some by (simp add: read_appointment_def)
        ultimately show ?thesis by auto
      qed
    qed
  qed
  show ?thesis using main access_predicate [of u a] by (simp add: update_denied_eq)
qed

theorem update_permitted_iff_read_permitted_witness:
  "profile_of doctor_1 \<noteq> None \<and>
   update_denied doctor_1 appointment_1 = Inr False \<and>
   read_denied doctor_1 appointment_1 = Inr False \<and>
   update_denied doctor_1 appointment_2 = Inr True \<and>
   read_denied doctor_1 appointment_2 = Inr True \<and>
   fst (read_appointment example_db 2 doctor_1) = Inl Forbidden \<and>
   fst (update_appointment example_db 2 unset doctor_1 950) = Inl Forbidden \<and>
   fst (read_appointment example_db 1 doctor_1) = Inr appointment_1 \<and>
   fst (update_appointment example_db 1 unset doctor_1 950) = Inr appointment_1"
proof -
  have p: "profile_of doctor_1 = Some \<lparr>doctor_pk = 10, doctor_user_id = 3\<rparr>"
    by (simp add: profile_of_def doctor_1_def)
  have k: "patient_id appointment_1 = 1 \<and> doctor_id appointment_1 = 10 \<and>
           patient_id appointment_2 = 2 \<and> doctor_id appointment_2 = 11 \<and>
           user_id doctor_1 = 3 \<and> \<not> is_superuser doctor_1"
    by (simp add: example_defs)
  have r: "fst (read_appointment example_db 2 doctor_1) = Inl Forbidden \<and>
           fst (read_appointment example_db 1 doctor_1) = Inr appointment_1 \<and>
           fst (update_appointment example_db 1 unset doctor_1 950) = Inr appointment_1"
    by (simp add: example_defs endpoint_defs unset_def model_dump_exclude_unset_def dump_field_def)
  have e: "update_denied doctor_1 appointment_1 = Inr False \<and>
           read_denied doctor_1 appointment_1 = Inr False \<and>
           update_denied doctor_1 appointment_2 = Inr True \<and>
           read_denied doctor_1 appointment_2 = Inr True"
    by (simp add: example_defs endpoint_defs)
  from update_permitted_iff_read_permitted [of doctor_1 appointment_1 example_db 2 unset 950]
       update_permitted_iff_read_permitted [of doctor_1 appointment_2 example_db 2 unset 950]
       p k r e
  show ?thesis by simp
qed

text \<open>
  C10. An update or a delete that fails leaves the store as it was: whenever the result
  is an error (not found, forbidden, or any other), the store returned is the store
  given. The same holds for the update request with its body.
\<close>

theorem failed_update_or_delete_keeps_store:
  "(fst (update_appointment d i p u now) = Inl e \<longrightarrow> snd (update_appointment d i p u now) = d) \<and>
   (fst (update_appointment_request d i b u now) = Inl e \<longrightarrow>
      snd (update_appointment_request d i b u now) = d) \<and>
   (fst (delete_appointment d i u) = Inl e \<longrightarrow> snd (delete_appointment d i u) = d)"
proof (intro conjI impI)
  assume "fst (update_appointment d i p u now) = Inl e"
  then show "snd (update_appointment d i p u now) = d"
    using update_appointment_error [of d i p u now e "snd (update_appointment d i p u now)"]
    by (metis prod.collapse)
next
  assume h: "fst (update_appointment_request d i b u now) = Inl e"
  show "snd (update_appointment_request d i b u now) = d"
  proof (cases "validate_update b")
    case (Inl x)
    then show ?thesis by (simp add: update_appointment_request_def)
  next
    case (Inr p)
    with h have "fst (update_appointment d i p u now) = Inl e"
      by (simp add: update_appointment_request_def)
    then have "snd (update_appointment d i p u now) = d"
      using update_appointment_error [of d i p u now e "snd (update_appointment d i p u now)"]
      by (metis prod.collapse)
    with Inr show ?thesis by (simp add: update_appointment_request_def)
  qed
next
  assume "fst (delete_appointment d i u) = Inl e"
  then show "snd (delete_appointment d i u) = d"
    by (auto simp: delete_appointment_def split: option.splits if_splits)
qed

theorem failed_update_or_delete_keeps_store_witness:
  "fst (update_appointment example_db 2 (unset\<lparr>set_status := Some (Some COMPLETED)\<rparr>) doctor_1 950)
     = Inl Forbidden \<and>
   snd (update_appointment example_db 2 (unset\<lparr>set_status := Some (Some COMPLETED)\<rparr>) doctor_1 950)
     = example_db \<and>
   fst (update_appointment_request example_db 7 [''status'' \<mapsto> JStr ''completed''] doctor_1 950)
     = Inl NotFound \<and>
   snd (update_appointment_request example_db 7 [''status'' \<mapsto> JStr ''completed''] doctor_1 950)
     = example_db \<and>
   fst (delete_appointment example_db 1 doctor_1) = Inl Forbidden \<and>
   snd (delete_appointment example_db 1 doctor_1) = example_db"
proof -
  have a: "fst (update_appointment example_db 2 (unset\<lparr>set_status := Some (Some COMPLETED)\<rparr>)
             doctor_1 950) = Inl Forbidden"
    by (simp add: example_defs endpoint_defs)
  have v: "validate_update [''status'' \<mapsto> JStr ''completed''] =
             Inr (unset\<lparr>set_status := Some (Some COMPLETED)\<rparr>)"
    by (simp add: validate_update_def settable_def optional_def unset_def)
  have b: "fst (update_appointment_request example_db 7 [''status'' \<mapsto> JStr ''completed'']
             doctor_1 950) = Inl NotFound"
    unfolding update_appointment_request_def v by (simp add: example_defs endpoint_defs)
  have c: "fst (delete_appointment example_db 1 doctor_1) = Inl Forbidden"
    by (simp add: example_defs endpoint_defs)
  from failed_update_or_delete_keeps_store
         [of example_db 2 "unset\<lparr>set_status := Some (Some COMPLETED)\<rparr>" doctor_1 950 Forbidden
             "[''status'' \<mapsto> JStr ''completed'']"]
       failed_update_or_delete_keeps_store
         [of example_db 7 "unset" doctor_1 950 NotFound
             "[''status'' \<mapsto> JStr ''completed'']"]
       failed_update_or_delete_keeps_store
         [of example_db 1 "unset" doctor_1 950 Forbidden
             "[''status'' \<mapsto> JStr ''completed'']"]
       a b c
  show ?thesis by simp
qed

end
